theory Spec2Isabelle
  imports
    Complex_Main
    "HOL-Library.Word"
    "HOL-Library.Sublist"
    "HOL-Library.Char_ord"
    "HOL-Library.List_Lexorder"
begin

text \<open>
  A model of the local record store of the selfie check-in application (blob store in
  IndexedDB, metadata index in \<^verbatim>\<open>localStorage\<close>), of its sync orchestrator and of the
  statistics of the two remote adapters, with the properties that the specification states
  about them.
\<close>

section \<open>Platform values\<close>

text \<open>
  A \<^verbatim>\<open>Blob\<close> is the byte sequence it holds.  Numbers that the program only carries
  around (coordinates, accuracy) are reals; \<^verbatim>\<open>Date.now()\<close> readings are integers
  (milliseconds since the epoch).
\<close>

type_synonym blob = "8 word list"

text \<open>
  A thrown JavaScript error object: its \<^verbatim>\<open>name\<close>, its \<^verbatim>\<open>message\<close> and its
  \<^verbatim>\<open>cause\<close> (absent unless the constructor was given one).  Every value of this type
  is an instance of \<^verbatim>\<open>Error\<close> (a \<^verbatim>\<open>DOMException\<close> is one too).
\<close>

datatype js_error = JsError (err_name: string) (err_message: string) (err_cause: "js_error option")

definition new_Error :: "string \<Rightarrow> js_error" where
  "new_Error m = JsError ''Error'' m None"

text \<open>The request error of \<^verbatim>\<open>IDBObjectStore.add\<close> on a key that is already present.\<close>

definition ConstraintError :: js_error where
  "ConstraintError = JsError ''ConstraintError'' ''Key already exists in the object store.'' None"

text \<open>Decimal rendering of an integer, as a template literal renders a whole number.\<close>

definition digit :: "nat \<Rightarrow> char" where
  "digit d = ''0123456789'' ! d"

fun string_of_nat :: "nat \<Rightarrow> string" where
  "string_of_nat n = (if 10 \<le> n then string_of_nat (n div 10) else []) @ [digit (n mod 10)]"

declare string_of_nat.simps [simp del]

definition string_of_int :: "int \<Rightarrow> string" where
  "string_of_int i = (if i < 0 then CHR ''-'' # string_of_nat (nat (- i)) else string_of_nat (nat i))"

section \<open>Data model of the local store (storage module)\<close>

text \<open>\<^verbatim>\<open>CheckinData['location']\<close>.\<close>

record location =
  latitude :: real
  longitude :: real
  accuracy :: real
  loc_timestamp :: int

text \<open>
  \<^verbatim>\<open>Omit<CheckinData, 'id'>\<close> and \<^verbatim>\<open>CheckinData\<close> itself: the latter extends the former by
  the generated id (field \<^verbatim>\<open>id\<close> of the source).
\<close>

record checkin_fields =
  userCode :: string
  timestamp :: int
  location :: location
  imageId :: string
  submissionId :: string

record checkin_data = checkin_fields +
  checkin_id :: string

text \<open>\<^verbatim>\<open>StoredImage\<close>: the object kept in the IndexedDB object store \<^verbatim>\<open>images\<close>, key path \<^verbatim>\<open>id\<close>.\<close>

record stored_image =
  img_id :: string
  img_blob :: blob
  img_timestamp :: int

text \<open>Result of \<^verbatim>\<open>getStorageStats\<close>.  The count of check-ins is shared with the remote statistics.\<close>

record checkin_count =
  totalCheckins :: nat

record storage_stats = checkin_count +
  totalImages :: nat
  storageSize :: string

section \<open>Environment and state\<close>

text \<open>
  Writes to the two browser stores and requests to the network, in the order in which the
  program issues them.
\<close>

datatype event =
    IdbAdd string
  | IdbClear
  | SetItem
  | RemoveItem
  | Fetch string
  | Query string

text \<open>A JSON value as \<^verbatim>\<open>response.json()\<close> yields it, and \<^verbatim>\<open>undefined\<close>.\<close>

datatype js_value =
    Undefined
  | Null
  | Bool bool
  | Num real
  | Str string
  | Arr "js_value list"
  | Obj "(string \<times> js_value) list"

text \<open>
  Outcome of one \<^verbatim>\<open>fetch\<close>: the promise rejects, or a response arrives with its
  \<^verbatim>\<open>ok\<close> flag and the outcome of parsing its body as JSON.
\<close>

datatype fetch_result =
    FetchRejected js_error
  | FetchResponse bool "js_error + js_value"

text \<open>Documents of the Firestore collection and rows of the Supabase table, as \<^verbatim>\<open>getStats\<close> reads them.\<close>

record fb_checkin =
  fb_userCode :: string
  fb_timestamp :: int

record sb_row =
  user_code :: string
  created_at :: "string option"

record sb_response =
  sb_data :: "sb_row list option"
  sb_error :: "js_error option"

text \<open>
  Everything the program obtains from outside, indexed by the number of external
  interactions made so far (\<open>tick\<close> of the state): clock readings, the suffix
  \<^verbatim>\<open>Math.random().toString(36).substr(2, 9)\<close>, the error of a storage request
  (\<^verbatim>\<open>indexedDB.open\<close>, a request on the object store, \<^verbatim>\<open>localStorage.setItem\<close>) if it
  fails, the outcome of a \<^verbatim>\<open>fetch\<close>, of a Firestore query and of a Supabase query.
  The remaining fields are built-in functions of the platform that the program calls:
  \<^verbatim>\<open>JSON.stringify\<close> on the list of check-ins, \<^verbatim>\<open>Number.toFixed(1)\<close>,
  \<^verbatim>\<open>FileReader.readAsDataURL\<close>, the conversion \<^verbatim>\<open>String(v)\<close> done by \<^verbatim>\<open>new Error(v)\<close>,
  \<^verbatim>\<open>Date.toISOString\<close>, and the local calendar of the collector, which follows the rules
  of its time zone: \<open>setHours0 t\<close> is the instant of \<^verbatim>\<open>d.setHours(0, 0, 0, 0)\<close> for
  the date object \<open>d\<close> of the instant \<open>t\<close>, \<open>setDateMinus7 t\<close> that of
  \<^verbatim>\<open>d.setDate(d.getDate() - 7)\<close>, and \<open>localDate t\<close> numbers the local calendar date
  (year, month and day of \<open>d\<close>) on which \<open>t\<close> falls, counted in days.  The program
  calls the first two; the last one is what the specification means by a calendar day.
\<close>

record env =
  clock :: "nat \<Rightarrow> int"
  random :: "nat \<Rightarrow> string"
  fault :: "nat \<Rightarrow> js_error option"
  network :: "nat \<Rightarrow> fetch_result"
  firestore :: "nat \<Rightarrow> js_error + fb_checkin list"
  supabase :: "nat \<Rightarrow> js_error + sb_response"
  stringify :: "checkin_data list \<Rightarrow> string"
  toFixed1 :: "real \<Rightarrow> string"
  readAsDataURL :: "blob \<Rightarrow> string"
  toString :: "js_value \<Rightarrow> string"
  toISOString :: "int \<Rightarrow> string"
  setHours0 :: "int \<Rightarrow> int"
  setDateMinus7 :: "int \<Rightarrow> int"
  localDate :: "int \<Rightarrow> int"

text \<open>
  The state: whether \<^verbatim>\<open>this.db\<close> is set, the object store \<^verbatim>\<open>images\<close>, the
  \<^verbatim>\<open>localStorage\<close> item \<^verbatim>\<open>selfie_checkins\<close> (absent, or the list whose JSON text it
  holds: \<^verbatim>\<open>JSON.parse\<close> gives back what \<^verbatim>\<open>JSON.stringify\<close> was given), the events so
  far and the number of external interactions so far.
\<close>

text \<open>
  Left out of the model: a failure of the dynamic \<^verbatim>\<open>import\<close> that opens
  \<^verbatim>\<open>storeCheckinWithSync\<close>, an exception of \<^verbatim>\<open>this.db.transaction\<close>, an error of the
  \<^verbatim>\<open>FileReader\<close> of \<^verbatim>\<open>exportData\<close> (the source has no handler for it), output to the
  console, and a \<^verbatim>\<open>localStorage\<close> item that is not the JSON text of a list of records
  (\<^verbatim>\<open>storeCheckin\<close> is its only writer).
\<close>

record world =
  db :: bool
  images :: "stored_image list"
  selfie_checkins :: "checkin_data list option"
  trace :: "event list"
  tick :: nat

definition Date_now :: "env \<Rightarrow> world \<Rightarrow> int \<times> world" where
  "Date_now E w = (clock E (tick w), w\<lparr>tick := Suc (tick w)\<rparr>)"

definition random_suffix :: "env \<Rightarrow> world \<Rightarrow> string \<times> world" where
  "random_suffix E w = (random E (tick w), w\<lparr>tick := Suc (tick w)\<rparr>)"

section \<open>StorageService\<close>

definition initDB :: "env \<Rightarrow> world \<Rightarrow> (js_error + unit) \<times> world" where
  "initDB E w =
     (case fault E (tick w) of
        Some e \<Rightarrow> (Inl e, w\<lparr>tick := Suc (tick w)\<rparr>)
      | None \<Rightarrow> (Inr (), w\<lparr>db := True, tick := Suc (tick w)\<rparr>))"

text \<open>\<^verbatim>\<open>if (!this.db) await this.initDB();\<close>\<close>

definition ensureDB :: "env \<Rightarrow> world \<Rightarrow> (js_error + unit) \<times> world" where
  "ensureDB E w = (if db w then (Inr (), w) else initDB E w)"

text \<open>\<^verbatim>\<open>store.get(key)\<close> on the object store.\<close>

definition idb_get :: "stored_image list \<Rightarrow> string \<Rightarrow> stored_image option" where
  "idb_get imgs k = find (\<lambda>i. img_id i = k) imgs"

text \<open>
  \<^verbatim>\<open>storeImage\<close>: the id from the clock and the random suffix, then the \<^verbatim>\<open>add\<close>
  request, which fails with the error of the platform or, the key being present already,
  with a \<^verbatim>\<open>ConstraintError\<close>.
\<close>

definition storeImage :: "env \<Rightarrow> blob \<Rightarrow> world \<Rightarrow> (js_error + string) \<times> world" where
  "storeImage E b w =
     (case ensureDB E w of
        (Inl e, w1) \<Rightarrow> (Inl e, w1)
      | (Inr _, w1) \<Rightarrow>
          (let (t1, w2) = Date_now E w1;
               (r, w3) = random_suffix E w2;
               imageId = ''img_'' @ string_of_int t1 @ ''_'' @ r;
               (t2, w4) = Date_now E w3;
               imageData = \<lparr>img_id = imageId, img_blob = b, img_timestamp = t2\<rparr>;
               w5 = w4\<lparr>tick := Suc (tick w4)\<rparr>
           in case fault E (tick w4) of
                Some e \<Rightarrow> (Inl e, w5)
              | None \<Rightarrow>
                  (case idb_get (images w5) imageId of
                     Some _ \<Rightarrow> (Inl ConstraintError, w5)
                   | None \<Rightarrow>
                       (Inr imageId,
                        w5\<lparr>images := images w5 @ [imageData],
                           trace := trace w5 @ [IdbAdd imageId]\<rparr>))))"

text \<open>\<^verbatim>\<open>getImage\<close>: \<^verbatim>\<open>result ? result.blob : null\<close>.\<close>

definition getImage :: "env \<Rightarrow> string \<Rightarrow> world \<Rightarrow> (js_error + blob option) \<times> world" where
  "getImage E k w =
     (case ensureDB E w of
        (Inl e, w1) \<Rightarrow> (Inl e, w1)
      | (Inr _, w1) \<Rightarrow>
          (let w2 = w1\<lparr>tick := Suc (tick w1)\<rparr>
           in case fault E (tick w1) of
                Some e \<Rightarrow> (Inl e, w2)
              | None \<Rightarrow>
                  (case idb_get (images w2) k of
                     Some result \<Rightarrow> (Inr (Some (img_blob result)), w2)
                   | None \<Rightarrow> (Inr None, w2))))"

text \<open>\<^verbatim>\<open>getAllCheckins\<close>: \<^verbatim>\<open>stored ? JSON.parse(stored) : []\<close>.\<close>

definition getAllCheckins :: "world \<Rightarrow> checkin_data list" where
  "getAllCheckins w = (case selfie_checkins w of Some stored \<Rightarrow> stored | None \<Rightarrow> [])"

text \<open>\<^verbatim>\<open>storeCheckin\<close> is synchronous; \<^verbatim>\<open>localStorage.setItem\<close> may throw.\<close>

definition storeCheckin :: "env \<Rightarrow> checkin_fields \<Rightarrow> world \<Rightarrow> (js_error + string) \<times> world" where
  "storeCheckin E d w =
     (let (t, w1) = Date_now E w;
          (r, w2) = random_suffix E w1;
          checkinId = ''checkin_'' @ string_of_int t @ ''_'' @ r;
          checkinData =
            \<lparr>userCode = userCode d, timestamp = timestamp d, location = location d,
             imageId = imageId d, submissionId = submissionId d, checkin_id = checkinId\<rparr>;
          existingData = getAllCheckins w2 @ [checkinData];
          w3 = w2\<lparr>tick := Suc (tick w2)\<rparr>
      in case fault E (tick w2) of
           Some e \<Rightarrow> (Inl e, w3)
         | None \<Rightarrow>
             (Inr checkinId,
              w3\<lparr>selfie_checkins := Some existingData, trace := trace w3 @ [SetItem]\<rparr>))"

definition getCheckin :: "world \<Rightarrow> string \<Rightarrow> checkin_data option" where
  "getCheckin w k = find (\<lambda>checkin. checkin_id checkin = k) (getAllCheckins w)"

text \<open>
  \<^verbatim>\<open>storeCompleteCheckin\<close>: the \<^verbatim>\<open>try\<close> block, with its two clock readings for the two
  record literals, and the \<^verbatim>\<open>catch\<close> block, which throws a new error for whatever it
  caught.
\<close>

definition storeCompleteCheckin ::
  "env \<Rightarrow> string \<Rightarrow> location \<Rightarrow> blob \<Rightarrow> string \<Rightarrow> world \<Rightarrow> (js_error + checkin_data) \<times> world" where
  "storeCompleteCheckin E uc loc imageBlob sid w =
     (case storeImage E imageBlob w of
        (Inl e, w1) \<Rightarrow> (Inl (new_Error ''Failed to store check-in data''), w1)
      | (Inr iid, w1) \<Rightarrow>
          (let (t, w2) = Date_now E w1
           in case storeCheckin E
                  \<lparr>userCode = uc, timestamp = t, location = loc, imageId = iid,
                   submissionId = sid\<rparr> w2 of
                (Inl e, w3) \<Rightarrow> (Inl (new_Error ''Failed to store check-in data''), w3)
              | (Inr checkinId, w3) \<Rightarrow>
                  (let (t', w4) = Date_now E w3
                   in (Inr \<lparr>userCode = uc, timestamp = t', location = loc, imageId = iid,
                            submissionId = sid, checkin_id = checkinId\<rparr>, w4))))"

text \<open>
  The loop of \<^verbatim>\<open>exportData\<close>: the records still to visit, the object \<^verbatim>\<open>images\<close> built
  so far.  A rejected \<^verbatim>\<open>getImage\<close> rejects the export; a blob that is not found is
  passed over by \<^verbatim>\<open>if (blob)\<close>.
\<close>

fun exportLoop ::
  "env \<Rightarrow> checkin_data list \<Rightarrow> (string \<rightharpoonup> string) \<Rightarrow> world \<Rightarrow>
     (js_error + (string \<rightharpoonup> string)) \<times> world" where
  "exportLoop E [] im w = (Inr im, w)"
| "exportLoop E (checkin # rest) im w =
     (case getImage E (imageId checkin) w of
        (Inl e, w1) \<Rightarrow> (Inl e, w1)
      | (Inr None, w1) \<Rightarrow> exportLoop E rest im w1
      | (Inr (Some b), w1) \<Rightarrow>
          exportLoop E rest (im(imageId checkin \<mapsto> readAsDataURL E b)) w1)"

record export_data =
  exp_checkins :: "checkin_data list"
  exp_images :: "string \<rightharpoonup> string"

definition exportData :: "env \<Rightarrow> world \<Rightarrow> (js_error + export_data) \<times> world" where
  "exportData E w =
     (let checkins = getAllCheckins w
      in case exportLoop E checkins Map.empty w of
           (Inl e, w1) \<Rightarrow> (Inl e, w1)
         | (Inr im, w1) \<Rightarrow> (Inr \<lparr>exp_checkins = checkins, exp_images = im\<rparr>, w1))"

text \<open>\<^verbatim>\<open>clearAllData\<close>: the item is removed first, then the object store is cleared.\<close>

definition clearAllData :: "env \<Rightarrow> world \<Rightarrow> (js_error + unit) \<times> world" where
  "clearAllData E w =
     (case ensureDB E (w\<lparr>selfie_checkins := None, trace := trace w @ [RemoveItem]\<rparr>) of
        (Inl e, w1) \<Rightarrow> (Inl e, w1)
      | (Inr _, w1) \<Rightarrow>
          (let w2 = w1\<lparr>tick := Suc (tick w1)\<rparr>
           in case fault E (tick w1) of
                Some e \<Rightarrow> (Inl e, w2)
              | None \<Rightarrow> (Inr (), w2\<lparr>images := [], trace := trace w2 @ [IdbClear]\<rparr>)))"

definition estimateStorageSize :: "env \<Rightarrow> world \<Rightarrow> string" where
  "estimateStorageSize E w =
     (let localStorageSize =
            (case selfie_checkins w of None \<Rightarrow> 0 | Some stored \<Rightarrow> length (stringify E stored));
          estimatedSize = localStorageSize + length (getAllCheckins w) * 500 * 1024
      in if estimatedSize < 1024 * 1024
         then toFixed1 E (real estimatedSize / 1024) @ '' KB''
         else toFixed1 E (real estimatedSize / (1024 * 1024)) @ '' MB'')"

definition getStorageStats :: "env \<Rightarrow> world \<Rightarrow> (js_error + storage_stats) \<times> world" where
  "getStorageStats E w =
     (let checkins = getAllCheckins w
      in case ensureDB E w of
           (Inl e, w1) \<Rightarrow> (Inl e, w1)
         | (Inr _, w1) \<Rightarrow>
             (let w2 = w1\<lparr>tick := Suc (tick w1)\<rparr>
              in case fault E (tick w1) of
                   Some e \<Rightarrow> (Inl e, w2)
                 | None \<Rightarrow>
                     (Inr \<lparr>totalCheckins = length checkins,
                           totalImages = length (images w2),
                           storageSize = estimateStorageSize E w2\<rparr>, w2)))"

section \<open>ApiService and HybridStorageService (api module)\<close>

record api_response =
  success :: bool
  data :: js_value
  error :: "string option"

record api_checkin_data =
  api_userCode :: string
  api_timestamp :: int
  api_location :: location
  api_submissionId :: string

text \<open>Truthiness of a value, as \<^verbatim>\<open>!\<close> and \<^verbatim>\<open>||\<close> test it.\<close>

fun truthy :: "js_value \<Rightarrow> bool" where
  "truthy Undefined = False"
| "truthy Null = False"
| "truthy (Bool b) = b"
| "truthy (Num x) = (x \<noteq> 0)"
| "truthy (Str s) = (s \<noteq> [])"
| "truthy (Arr _) = True"
| "truthy (Obj _) = True"

definition TypeError :: "string \<Rightarrow> js_error" where
  "TypeError m = JsError ''TypeError'' m None"

text \<open>
  Reading a property (\<^verbatim>\<open>error\<close>, \<^verbatim>\<open>id\<close>, \<^verbatim>\<open>imageUrl\<close>) of a value: a
  \<^verbatim>\<open>TypeError\<close> on \<^verbatim>\<open>null\<close> and \<^verbatim>\<open>undefined\<close>, the member of an object, and
  \<^verbatim>\<open>undefined\<close> where there is none.
\<close>

fun get_prop :: "js_value \<Rightarrow> string \<Rightarrow> js_error + js_value" where
  "get_prop Undefined k = Inl (TypeError (''Cannot read properties of undefined (reading '' @ k @ '')''))"
| "get_prop Null k = Inl (TypeError (''Cannot read properties of null (reading '' @ k @ '')''))"
| "get_prop (Obj kvs) k = Inr (case map_of kvs k of Some v \<Rightarrow> v | None \<Rightarrow> Undefined)"
| "get_prop _ k = Inr Undefined"

text \<open>The object that each \<^verbatim>\<open>catch\<close> block of \<^verbatim>\<open>ApiService\<close> returns.\<close>

definition failed :: "js_error \<Rightarrow> api_response" where
  "failed e = \<lparr>success = False, data = Undefined, error = Some (err_message e)\<rparr>"

text \<open>
  The common body of \<^verbatim>\<open>uploadImage\<close> and \<^verbatim>\<open>submitCheckin\<close>: one \<^verbatim>\<open>fetch\<close>, the body
  parsed, \<^verbatim>\<open>throw new Error(result.error || fallback)\<close> unless \<^verbatim>\<open>response.ok\<close>, every
  exception caught.
\<close>

definition post_json :: "env \<Rightarrow> string \<Rightarrow> string \<Rightarrow> world \<Rightarrow> api_response \<times> world" where
  "post_json E path fallback w =
     (let w1 = w\<lparr>trace := trace w @ [Fetch path], tick := Suc (tick w)\<rparr>
      in case network E (tick w) of
           FetchRejected e \<Rightarrow> (failed e, w1)
         | FetchResponse ok parsed \<Rightarrow>
             (case parsed of
                Inl e \<Rightarrow> (failed e, w1)
              | Inr result \<Rightarrow>
                  if \<not> ok then
                    (case get_prop result ''error'' of
                       Inl e \<Rightarrow> (failed e, w1)
                     | Inr v \<Rightarrow>
                         (failed (new_Error (if truthy v then toString E v else fallback)), w1))
                  else (\<lparr>success = True, data = result, error = None\<rparr>, w1)))"

definition uploadImage :: "env \<Rightarrow> blob \<Rightarrow> js_value \<Rightarrow> world \<Rightarrow> api_response \<times> world" where
  "uploadImage E imageBlob checkinId w = post_json E ''/upload-image'' ''Upload failed'' w"

definition submitCheckin :: "env \<Rightarrow> api_checkin_data \<Rightarrow> world \<Rightarrow> api_response \<times> world" where
  "submitCheckin E d w = post_json E ''/checkins'' ''Submission failed'' w"

text \<open>
  \<^verbatim>\<open>submitCompleteCheckin\<close>: a response that is unsuccessful or has a falsy \<^verbatim>\<open>data\<close> is
  handed back as it is.
\<close>

definition submitCompleteCheckin ::
  "env \<Rightarrow> api_checkin_data \<Rightarrow> blob \<Rightarrow> world \<Rightarrow> api_response \<times> world" where
  "submitCompleteCheckin E checkinData imageBlob w =
     (let (checkinResponse, w1) = submitCheckin E checkinData w
      in if \<not> success checkinResponse \<or> \<not> truthy (data checkinResponse)
         then (checkinResponse, w1)
         else
           (case get_prop (data checkinResponse) ''id'' of
              Inl e \<Rightarrow> (failed e, w1)
            | Inr checkinId \<Rightarrow>
                (let (imageResponse, w2) = uploadImage E imageBlob checkinId w1
                 in if \<not> success imageResponse \<or> \<not> truthy (data imageResponse)
                    then (imageResponse, w2)
                    else
                      (case get_prop (data imageResponse) ''imageUrl'' of
                         Inl e \<Rightarrow> (failed e, w2)
                       | Inr imageUrl \<Rightarrow>
                           (\<lparr>success = True,
                             data = Obj [(''checkinId'', checkinId), (''imageUrl'', imageUrl)],
                             error = None\<rparr>, w2)))))"

text \<open>\<^verbatim>\<open>healthCheck\<close>: \<^verbatim>\<open>response.ok\<close>, and \<^verbatim>\<open>false\<close> for a rejected \<^verbatim>\<open>fetch\<close>.\<close>

definition healthCheck :: "env \<Rightarrow> world \<Rightarrow> bool \<times> world" where
  "healthCheck E w =
     (let w1 = w\<lparr>trace := trace w @ [Fetch ''/health''], tick := Suc (tick w)\<rparr>
      in case network E (tick w) of
           FetchRejected e \<Rightarrow> (False, w1)
         | FetchResponse ok parsed \<Rightarrow> (ok, w1))"

record sync_result =
  localId :: string
  synced :: bool
  sync_error :: "string option"

text \<open>
  \<^verbatim>\<open>HybridStorageService.storeCheckinWithSync\<close>.  Nothing after the local commit throws, so
  the \<^verbatim>\<open>catch\<close> block is reached from \<^verbatim>\<open>storeCompleteCheckin\<close> only.
\<close>

definition storeCheckinWithSync ::
  "env \<Rightarrow> string \<Rightarrow> location \<Rightarrow> blob \<Rightarrow> string \<Rightarrow> world \<Rightarrow> (js_error + sync_result) \<times> world" where
  "storeCheckinWithSync E uc loc imageBlob sid w =
     (case storeCompleteCheckin E uc loc imageBlob sid w of
        (Inl e, w1) \<Rightarrow> (Inl (new_Error ''Failed to store checkin locally''), w1)
      | (Inr localCheckin, w1) \<Rightarrow>
          (let (apiHealthy, w2) = healthCheck E w1
           in if apiHealthy then
                (let (t, w3) = Date_now E w2;
                     (apiResponse, w4) =
                       submitCompleteCheckin E
                         \<lparr>api_userCode = uc, api_timestamp = t, api_location = loc,
                          api_submissionId = sid\<rparr> imageBlob w3
                 in if success apiResponse
                    then (Inr \<lparr>localId = checkin_id localCheckin, synced = True,
                               sync_error = None\<rparr>, w4)
                    else (Inr \<lparr>localId = checkin_id localCheckin, synced = False,
                               sync_error = error apiResponse\<rparr>, w4))
              else (Inr \<lparr>localId = checkin_id localCheckin, synced = False,
                         sync_error = Some ''Server not available''\<rparr>, w2)))"

section \<open>Remote statistics (firebase-storage and supabase-storage modules)\<close>

record remote_stats = checkin_count +
  uniqueUsers :: nat
  todayCheckins :: nat
  thisWeekCheckins :: nat

definition zero_stats :: remote_stats where
  "zero_stats = \<lparr>totalCheckins = 0, uniqueUsers = 0, todayCheckins = 0, thisWeekCheckins = 0\<rparr>"

definition msPerDay :: int where
  "msPerDay = 24 * 60 * 60 * 1000"

text \<open>
  \<^verbatim>\<open>new Date(t)\<close> is a valid date for a time value of at most 8.64e15 milliseconds either
  side of the epoch; an invalid date compares false with every date.  The readings of the
  collector's own clock are taken as valid.
\<close>

definition valid_date :: "int \<Rightarrow> bool" where
  "valid_date t = (\<bar>t\<bar> \<le> 8640000000000000)"

text \<open>\<^verbatim>\<open>FirebaseStorageService.getAllCheckins\<close>: the query, and its error thrown again.\<close>

definition fb_getAllCheckins :: "env \<Rightarrow> world \<Rightarrow> (js_error + fb_checkin list) \<times> world" where
  "fb_getAllCheckins E w =
     (firestore E (tick w), w\<lparr>trace := trace w @ [Query ''checkins''], tick := Suc (tick w)\<rparr>)"

text \<open>The \<^verbatim>\<open>try\<close> block of \<^verbatim>\<open>FirebaseStorageService.getStats\<close>.\<close>

definition fb_getStats_try :: "env \<Rightarrow> world \<Rightarrow> (js_error + remote_stats) \<times> world" where
  "fb_getStats_try E w =
     (case fb_getAllCheckins E w of
        (Inl e, w1) \<Rightarrow> (Inl e, w1)
      | (Inr allCheckins, w1) \<Rightarrow>
          (let (n1, w2) = Date_now E w1;
               today = setHours0 E n1;
               (n2, w3) = Date_now E w2;
               weekAgo = setDateMinus7 E n2
           in (Inr \<lparr>totalCheckins = length allCheckins,
                     uniqueUsers = length (remdups (map fb_userCode allCheckins)),
                     todayCheckins =
                       length (filter (\<lambda>c. valid_date (fb_timestamp c) \<and> today \<le> fb_timestamp c)
                         allCheckins),
                     thisWeekCheckins =
                       length (filter (\<lambda>c. valid_date (fb_timestamp c) \<and> weekAgo \<le> fb_timestamp c)
                         allCheckins)\<rparr>, w3)))"

text \<open>\<^verbatim>\<open>FirebaseStorageService.getStats\<close>: the \<^verbatim>\<open>try\<close> block, and the \<^verbatim>\<open>catch\<close> block.\<close>

definition fb_getStats :: "env \<Rightarrow> world \<Rightarrow> remote_stats \<times> world" where
  "fb_getStats E w =
     (case fb_getStats_try E w of
        (Inl e, w1) \<Rightarrow> (zero_stats, w1)
      | (Inr s, w1) \<Rightarrow> (s, w1))"

text \<open>
  The \<^verbatim>\<open>try\<close> block of \<^verbatim>\<open>SupabaseStorageService.getStats\<close>.  \<^verbatim>\<open>allCheckins.length\<close> on
  \<^verbatim>\<open>null\<close> and \<^verbatim>\<open>c.created_at.startsWith\<close> on a row without \<^verbatim>\<open>created_at\<close> throw a
  \<^verbatim>\<open>TypeError\<close>.  Strings compare by their code units.
\<close>

definition sb_getStats_try :: "env \<Rightarrow> world \<Rightarrow> (js_error + remote_stats) \<times> world" where
  "sb_getStats_try E w =
     (let w1 = w\<lparr>trace := trace w @ [Query ''checkins''], tick := Suc (tick w)\<rparr>
      in case supabase E (tick w) of
           Inl e \<Rightarrow> (Inl e, w1)
         | Inr resp \<Rightarrow>
             (case sb_error resp of
                Some e \<Rightarrow> (Inl e, w1)
              | None \<Rightarrow>
                  (let (n1, w2) = Date_now E w1;
                       today = takeWhile (\<lambda>c. c \<noteq> CHR ''T'') (toISOString E n1);
                       (n2, w3) = Date_now E w2;
                       weekAgo = toISOString E (n2 - 7 * 24 * 60 * 60 * 1000)
                   in case sb_data resp of
                        None \<Rightarrow>
                          (Inl (TypeError ''Cannot read properties of null (reading length)''), w3)
                      | Some allCheckins \<Rightarrow>
                          (case those (map created_at allCheckins) of
                             None \<Rightarrow>
                               (Inl (TypeError
                                  ''Cannot read properties of null (reading startsWith)''), w3)
                           | Some stamps \<Rightarrow>
                               (Inr \<lparr>totalCheckins = length allCheckins,
                                     uniqueUsers = length (remdups (map user_code allCheckins)),
                                     todayCheckins = length (filter (prefix today) stamps),
                                     thisWeekCheckins =
                                       length (filter (\<lambda>s. weekAgo \<le> s) stamps)\<rparr>, w3)))))"

definition sb_getStats :: "env \<Rightarrow> world \<Rightarrow> remote_stats \<times> world" where
  "sb_getStats E w =
     (case sb_getStats_try E w of
        (Inl e, w1) \<Rightarrow> (zero_stats, w1)
      | (Inr s, w1) \<Rightarrow> (s, w1))"

section \<open>Properties stated by the specification\<close>

text \<open>
  The range constraints that the specification puts on a \<^verbatim>\<open>LocationReading\<close> and on the
  inputs of a submission.  They are the specification's; the program has no such test.
\<close>

definition spec_valid_location :: "location \<Rightarrow> bool" where
  "spec_valid_location loc =
     (- 90 \<le> latitude loc \<and> latitude loc \<le> 90 \<and> - 180 \<le> longitude loc \<and> longitude loc \<le> 180
      \<and> 0 \<le> accuracy loc)"

definition spec_valid_input :: "string \<Rightarrow> location \<Rightarrow> blob \<Rightarrow> bool" where
  "spec_valid_input uc loc imageBlob = (uc \<noteq> [] \<and> spec_valid_location loc \<and> imageBlob \<noteq> [])"

text \<open>
  A record is created within the current calendar day of the collector when its instant and
  the current instant fall on the same local calendar date.
\<close>

definition spec_created_today :: "env \<Rightarrow> int \<Rightarrow> int \<Rightarrow> bool" where
  "spec_created_today E now t = (localDate E t = localDate E now)"

text \<open>A \<^verbatim>\<open>fetch\<close> that fails: no response, a body that does not parse, or a status that is not ok.\<close>

fun fetch_failed :: "fetch_result \<Rightarrow> bool" where
  "fetch_failed (FetchRejected e) = True"
| "fetch_failed (FetchResponse ok (Inl e)) = True"
| "fetch_failed (FetchResponse ok (Inr v)) = (\<not> ok)"

text \<open>A server that cannot be reached: the health probe is rejected or not ok.\<close>

fun unreachable :: "fetch_result \<Rightarrow> bool" where
  "unreachable (FetchRejected e) = True"
| "unreachable (FetchResponse ok parsed) = (\<not> ok)"

text \<open>Events that reach a remote service.\<close>

fun remote_event :: "event \<Rightarrow> bool" where
  "remote_event (Fetch p) = True"
| "remote_event (Query p) = True"
| "remote_event _ = False"

text \<open>
  An error \<open>e\<close> preserves the cause \<open>c\<close> when it is \<open>c\<close> itself or carries \<open>c\<close> as its
  \<^verbatim>\<open>cause\<close>.
\<close>

definition spec_preserves_cause :: "js_error \<Rightarrow> js_error \<Rightarrow> bool" where
  "spec_preserves_cause e c = (e = c \<or> err_cause e = Some c)"

section \<open>Concrete environments and states\<close>

text \<open>
  In \<open>env0\<close> the clock reads \<open>1000 + n\<close> at interaction \<open>n\<close>, nothing fails in the
  browser, the server and the remote collections are as their fields say, and local time is
  UTC.  From
  \<open>world0\<close>, where the database is not yet open, the interactions of one
  \<^verbatim>\<open>storeCompleteCheckin\<close> are: 0 \<^verbatim>\<open>indexedDB.open\<close>; 1 clock (image id); 2 random
  suffix; 3 clock (image timestamp); 4 the \<^verbatim>\<open>add\<close> request; 5 clock (timestamp of the
  record appended); 6 clock (check-in id); 7 random suffix; 8 \<^verbatim>\<open>setItem\<close>; 9 clock
  (timestamp of the record returned).
\<close>

definition env0 :: env where
  "env0 =
     \<lparr>clock = (\<lambda>n. 1000 + int n),
      random = (\<lambda>n. ''k3x9q0z7a''),
      fault = (\<lambda>n. None),
      network = (\<lambda>n. FetchRejected (TypeError ''Failed to fetch'')),
      firestore = (\<lambda>n. Inr []),
      supabase = (\<lambda>n. Inr \<lparr>sb_data = Some [], sb_error = None\<rparr>),
      stringify = (\<lambda>xs. []),
      toFixed1 = (\<lambda>x. []),
      readAsDataURL = (\<lambda>b. ''data:'' @ map (\<lambda>x. char_of (unat x)) b),
      toString = (\<lambda>v. case v of Str s \<Rightarrow> s | _ \<Rightarrow> []),
      toISOString = (\<lambda>t. []),
      setHours0 = (\<lambda>t. t - t mod msPerDay),
      setDateMinus7 = (\<lambda>t. t - 7 * msPerDay),
      localDate = (\<lambda>t. t div msPerDay)\<rparr>"

definition world0 :: world where
  "world0 = \<lparr>db = False, images = [], selfie_checkins = None, trace = [], tick = 0\<rparr>"

definition loc0 :: location where
  "loc0 = \<lparr>latitude = 40.7128, longitude = - 74.0060, accuracy = 5, loc_timestamp = 990\<rparr>"

text \<open>The first submission in \<open>env0\<close> from the empty state: what it returns and the state it leaves.\<close>

definition checkin0 :: checkin_data where
  "checkin0 =
     \<lparr>userCode = ''FIELD_01'', timestamp = 1009, location = loc0,
      imageId = ''img_1001_k3x9q0z7a'', submissionId = ''VER-ABC123'',
      checkin_id = ''checkin_1006_k3x9q0z7a''\<rparr>"

definition world1 :: world where
  "world1 =
     \<lparr>db = True,
      images = [\<lparr>img_id = ''img_1001_k3x9q0z7a'', img_blob = [1, 2, 3], img_timestamp = 1003\<rparr>],
      selfie_checkins = Some [checkin0\<lparr>timestamp := 1005\<rparr>],
      trace = [IdbAdd ''img_1001_k3x9q0z7a'', SetItem],
      tick = 10\<rparr>"

text \<open>A second submission, made in \<open>world1\<close>.\<close>

definition checkin1 :: checkin_data where
  "checkin1 =
     \<lparr>userCode = ''FIELD_02'', timestamp = 1018, location = loc0,
      imageId = ''img_1010_k3x9q0z7a'', submissionId = ''VER-DEF456'',
      checkin_id = ''checkin_1015_k3x9q0z7a''\<rparr>"

definition world2 :: world where
  "world2 =
     \<lparr>db = True,
      images = [\<lparr>img_id = ''img_1001_k3x9q0z7a'', img_blob = [1, 2, 3], img_timestamp = 1003\<rparr>,
                \<lparr>img_id = ''img_1010_k3x9q0z7a'', img_blob = [4, 5], img_timestamp = 1012\<rparr>],
      selfie_checkins = Some [checkin0\<lparr>timestamp := 1005\<rparr>, checkin1\<lparr>timestamp := 1014\<rparr>],
      trace = [IdbAdd ''img_1001_k3x9q0z7a'', SetItem, IdbAdd ''img_1010_k3x9q0z7a'', SetItem],
      tick = 19\<rparr>"

text \<open>\<open>world1\<close> after \<^verbatim>\<open>clearAllData\<close>.\<close>

definition world_cleared :: world where
  "world_cleared =
     \<lparr>db = True, images = [], selfie_checkins = None,
      trace = [IdbAdd ''img_1001_k3x9q0z7a'', SetItem, RemoveItem, IdbClear], tick = 11\<rparr>"

text \<open>A reading outside every range of the specification, and the submission of it with an empty user code.\<close>

definition loc_bad :: location where
  "loc_bad = \<lparr>latitude = 91, longitude = 181, accuracy = - 1, loc_timestamp = 990\<rparr>"

definition checkin_bad :: checkin_data where
  "checkin_bad =
     \<lparr>userCode = [], timestamp = 1009, location = loc_bad,
      imageId = ''img_1001_k3x9q0z7a'', submissionId = ''VER-ABC123'',
      checkin_id = ''checkin_1006_k3x9q0z7a''\<rparr>"

definition world_bad :: world where
  "world_bad =
     \<lparr>db = True,
      images = [\<lparr>img_id = ''img_1001_k3x9q0z7a'', img_blob = [1, 2, 3], img_timestamp = 1003\<rparr>],
      selfie_checkins = Some [checkin_bad\<lparr>timestamp := 1005\<rparr>],
      trace = [IdbAdd ''img_1001_k3x9q0z7a'', SetItem],
      tick = 10\<rparr>"

text \<open>\<open>world1\<close> with one more record in the index, whose image is in no object store.\<close>

definition checkin_dangling :: checkin_data where
  "checkin_dangling =
     \<lparr>userCode = ''FIELD_02'', timestamp = 1007, location = loc0,
      imageId = ''img_999_gone00000'', submissionId = ''VER-DEF456'',
      checkin_id = ''checkin_1007_k3x9q0z7a''\<rparr>"

definition world_dangling :: world where
  "world_dangling =
     world1\<lparr>selfie_checkins := Some [checkin0\<lparr>timestamp := 1005\<rparr>, checkin_dangling]\<rparr>"

text \<open>
  Environments in which the \<^verbatim>\<open>add\<close> request of the blob (interaction 4), respectively
  \<^verbatim>\<open>setItem\<close> of the index (interaction 8), fails with a quota error.
\<close>

definition quota :: js_error where
  "quota = JsError ''QuotaExceededError'' ''The quota has been exceeded.'' None"

definition env_blob_fault :: env where
  "env_blob_fault = env0\<lparr>fault := (\<lambda>n. if n = 4 then Some quota else None)\<rparr>"

definition env_index_fault :: env where
  "env_index_fault = env0\<lparr>fault := (\<lambda>n. if n = 8 then Some quota else None)\<rparr>"

text \<open>
  The calendar of a collector in New York around 2023-11-05, the day on which daylight
  saving time ends there: local time is four hours behind UTC before 06:00 UTC of that day
  (instant 1699164000000) and five hours behind from then on.  Local midnight of a date is
  four hours after the UTC midnight of that date if that instant is before the change, and
  five hours after it otherwise; seven days earlier at the same local time of day is found
  in the same way.
\<close>

definition ny_offset :: "int \<Rightarrow> int" where
  "ny_offset t = (if t < 1699164000000 then - 14400000 else - 18000000)"

definition ny_localDate :: "int \<Rightarrow> int" where
  "ny_localDate t = (t + ny_offset t) div msPerDay"

definition ny_instant :: "int \<Rightarrow> int" where
  "ny_instant l = (if l + 14400000 < 1699164000000 then l + 14400000 else l + 18000000)"

definition ny_setHours0 :: "int \<Rightarrow> int" where
  "ny_setHours0 t = ny_instant (ny_localDate t * msPerDay)"

definition ny_setDateMinus7 :: "int \<Rightarrow> int" where
  "ny_setDateMinus7 t = ny_instant (t + ny_offset t - 7 * msPerDay)"

text \<open>
  Remote collections.  Three records of two users, read at noon of 2023-11-05 in New York
  (17:00 UTC): one made at 00:30 local time of that day, one at 23:30 of the evening
  before, one in July.  One record dated two days ahead of the collector's clock, read in
  UTC.  A backend that fails.
\<close>

definition recs3 :: "fb_checkin list" where
  "recs3 =
     [\<lparr>fb_userCode = ''FIELD_01'', fb_timestamp = 1699158600000\<rparr>,
      \<lparr>fb_userCode = ''FIELD_02'', fb_timestamp = 1699155000000\<rparr>,
      \<lparr>fb_userCode = ''FIELD_01'', fb_timestamp = 1690000000000\<rparr>]"

definition env_stats :: env where
  "env_stats =
     env0\<lparr>clock := (\<lambda>n. 1699203600000), firestore := (\<lambda>n. Inr recs3),
          setHours0 := ny_setHours0, setDateMinus7 := ny_setDateMinus7,
          localDate := ny_localDate\<rparr>"

definition env_future :: env where
  "env_future =
     env0\<lparr>clock := (\<lambda>n. 1700000000000),
          firestore := (\<lambda>n. Inr [\<lparr>fb_userCode = ''FIELD_01'', fb_timestamp = 1700200000000\<rparr>])\<rparr>"

definition unavailable :: js_error where
  "unavailable = JsError ''FirebaseError'' ''Failed to get document because the client is offline.'' None"

definition env_down :: env where
  "env_down = env0\<lparr>firestore := (\<lambda>n. Inl unavailable), supabase := (\<lambda>n. Inl unavailable)\<rparr>"

section \<open>Effects of the operations of the local store\<close>

lemma storeImage_Inr:
  assumes "storeImage E b w = (Inr k, w')"
  shows "db w'" and "selfie_checkins w' = selfie_checkins w" and "trace w' = trace w @ [IdbAdd k]"
    and "idb_get (images w) k = None"
    and "\<exists>t. images w' = images w @ [\<lparr>img_id = k, img_blob = b, img_timestamp = t\<rparr>]"
  using assms
  by (auto simp: storeImage_def ensureDB_def initDB_def Date_now_def random_suffix_def Let_def
      split: if_splits option.splits)

lemma storeCheckin_Inr:
  assumes "storeCheckin E d w = (Inr k, w')"
  shows "db w' = db w" and "images w' = images w" and "trace w' = trace w @ [SetItem]"
    and "tick w' = tick w + 3"
    and "selfie_checkins w' = Some (getAllCheckins w @
          [\<lparr>userCode = userCode d, timestamp = timestamp d, location = location d,
             imageId = imageId d, submissionId = submissionId d, checkin_id = k\<rparr>])"
  using assms
  by (auto simp: storeCheckin_def Date_now_def random_suffix_def Let_def getAllCheckins_def
      split: if_splits option.splits)

text \<open>A successful \<^verbatim>\<open>storeCompleteCheckin\<close> is one blob write, one clock reading, one append, one clock reading.\<close>

lemma storeCompleteCheckin_Inr:
  assumes "storeCompleteCheckin E uc loc b sid w = (Inr r, w')"
  shows "\<exists>w1 w3. storeImage E b w = (Inr (imageId r), w1) \<and>
           storeCheckin E \<lparr>userCode = uc, timestamp = clock E (tick w1), location = loc,
              imageId = imageId r, submissionId = sid\<rparr> (w1\<lparr>tick := Suc (tick w1)\<rparr>)
             = (Inr (checkin_id r), w3) \<and>
           w' = w3\<lparr>tick := Suc (tick w3)\<rparr> \<and>
           r = \<lparr>userCode = uc, timestamp = clock E (tick w3), location = loc,
                imageId = imageId r, submissionId = sid, checkin_id = checkin_id r\<rparr>"
  using assms
  by (auto simp: storeCompleteCheckin_def Date_now_def Let_def split: prod.splits sum.splits)

lemma find_snoc_fresh: "find P xs = None \<Longrightarrow> P x \<Longrightarrow> find P (xs @ [x]) = Some x"
  by (induction xs) (auto split: if_splits)

lemma stored_image_after:
  assumes "storeCompleteCheckin E uc loc b sid w = (Inr r, w')"
  shows "db w'" and "map_option img_blob (idb_get (images w') (imageId r)) = Some b"
proof -
  from storeCompleteCheckin_Inr [OF assms(1)] obtain w1 w3 where
    si: "storeImage E b w = (Inr (imageId r), w1)" and
    sc: "storeCheckin E \<lparr>userCode = uc, timestamp = clock E (tick w1), location = loc,
              imageId = imageId r, submissionId = sid\<rparr> (w1\<lparr>tick := Suc (tick w1)\<rparr>)
             = (Inr (checkin_id r), w3)" and
    w': "w' = w3\<lparr>tick := Suc (tick w3)\<rparr>"
    by blast
  from storeImage_Inr [OF si] obtain t where
    "db w1" "idb_get (images w) (imageId r) = None"
    "images w1 = images w @ [\<lparr>img_id = imageId r, img_blob = b, img_timestamp = t\<rparr>]"
    by blast
  moreover from storeCheckin_Inr [OF sc] have "db w3 = db w1" "images w3 = images w1"
    by simp_all
  ultimately show "db w'" and "map_option img_blob (idb_get (images w') (imageId r)) = Some b"
    by (simp_all add: w' idb_get_def find_snoc_fresh)
qed

lemma storeCompleteCheckin_index:
  assumes "storeCompleteCheckin E uc loc b sid w = (Inr r, w')"
  shows "getAllCheckins w' = getAllCheckins w @ [r\<lparr>timestamp := clock E (tick w' - 5)\<rparr>]"
    and "timestamp r = clock E (tick w' - 1)" and "5 \<le> tick w'"
    and "trace w' = trace w @ [IdbAdd (imageId r), SetItem]"
proof -
  from storeCompleteCheckin_Inr [OF assms(1)] obtain w1 w3 where
    si: "storeImage E b w = (Inr (imageId r), w1)" and
    sc: "storeCheckin E \<lparr>userCode = uc, timestamp = clock E (tick w1), location = loc,
              imageId = imageId r, submissionId = sid\<rparr> (w1\<lparr>tick := Suc (tick w1)\<rparr>)
             = (Inr (checkin_id r), w3)" and
    w': "w' = w3\<lparr>tick := Suc (tick w3)\<rparr>" and
    r: "r = \<lparr>userCode = uc, timestamp = clock E (tick w3), location = loc,
                imageId = imageId r, submissionId = sid, checkin_id = checkin_id r\<rparr>"
    by blast
  note i = storeImage_Inr [OF si] and c = storeCheckin_Inr [OF sc]
  have t: "tick w' = tick w1 + 5" "tick w3 = tick w1 + 4"
    using c(4) by (simp_all add: w')
  have g: "getAllCheckins (w1\<lparr>tick := Suc (tick w1)\<rparr>) = getAllCheckins w"
    using i(2) by (simp add: getAllCheckins_def)
  have "r\<lparr>timestamp := clock E (tick w' - 5)\<rparr> =
      \<lparr>userCode = uc, timestamp = clock E (tick w1), location = loc,
                imageId = imageId r, submissionId = sid, checkin_id = checkin_id r\<rparr>"
    by (subst r) (simp add: t)
  then show "getAllCheckins w' = getAllCheckins w @ [r\<lparr>timestamp := clock E (tick w' - 5)\<rparr>]"
    using c(5) g by (simp add: w' getAllCheckins_def)
  have "tick w' - 1 = tick w3"
    by (simp add: w')
  then show "timestamp r = clock E (tick w' - 1)"
    by (subst r) simp
  show "5 \<le> tick w'"
    by (simp add: t)
  show "trace w' = trace w @ [IdbAdd (imageId r), SetItem]"
    using i(3) c(3) by (simp add: w')
qed

lemma getImage_db:
  "db w \<Longrightarrow> fst (getImage E k w) =
     (case fault E (tick w) of Some e \<Rightarrow> Inl e
      | None \<Rightarrow> Inr (map_option img_blob (idb_get (images w) k)))"
  by (simp add: getImage_def ensureDB_def Let_def split: option.splits)

subsection \<open>The concrete runs\<close>

lemmas store_defs = storeCompleteCheckin_def storeImage_def storeCheckin_def ensureDB_def initDB_def
  Date_now_def random_suffix_def idb_get_def getAllCheckins_def Let_def new_Error_def
  string_of_int_def string_of_nat.simps digit_def

lemma store_run0:
  "storeCompleteCheckin env0 ''FIELD_01'' loc0 [1, 2, 3] ''VER-ABC123'' world0 = (Inr checkin0, world1)"
  by (simp add: store_defs env0_def world0_def world1_def checkin0_def)

lemma store_run1:
  "storeCompleteCheckin env0 ''FIELD_02'' loc0 [4, 5] ''VER-DEF456'' world1 = (Inr checkin1, world2)"
  by (simp add: store_defs env0_def world1_def world2_def checkin0_def checkin1_def)

lemma store_run_bad:
  "storeCompleteCheckin env0 [] loc_bad [1, 2, 3] ''VER-ABC123'' world0 = (Inr checkin_bad, world_bad)"
  by (simp add: store_defs env0_def world0_def world_bad_def checkin_bad_def)

lemma clear_run1: "clearAllData env0 world1 = (Inr (), world_cleared)"
  by (simp add: clearAllData_def ensureDB_def Let_def env0_def world1_def world_cleared_def)

section \<open>The claims\<close>

text \<open>
  C1.  For every valid input (a non-empty user code, a reading within the ranges, non-empty
  image bytes, a submission id), the record that a successful \<^verbatim>\<open>storeCompleteCheckin\<close>
  returns has an image reference which \<^verbatim>\<open>getImage\<close> resolves to exactly the bytes that
  were supplied, the read request of \<^verbatim>\<open>getImage\<close> itself not failing.
\<close>

theorem C1_image_roundtrip:
  assumes "spec_valid_input uc loc b"
    and "storeCompleteCheckin E uc loc b sid w = (Inr r, w')"
    and "fault E (tick w') = None"
  shows "fst (getImage E (imageId r) w') = Inr (Some b)"
  using stored_image_after [OF assms(2)] assms(3) by (simp add: getImage_db)

theorem C1_image_roundtrip_witness:
  "spec_valid_input ''FIELD_01'' loc0 [1, 2, 3] \<and>
   storeCompleteCheckin env0 ''FIELD_01'' loc0 [1, 2, 3] ''VER-ABC123'' world0 = (Inr checkin0, world1) \<and>
   fst (getImage env0 ''img_1001_k3x9q0z7a'' world1) = Inr (Some [1, 2, 3])"
proof -
  have v: "spec_valid_input ''FIELD_01'' loc0 [1, 2, 3]"
    by (simp add: spec_valid_input_def spec_valid_location_def loc0_def)
  have f: "fault env0 (tick world1) = None"
    by (simp add: env0_def)
  from C1_image_roundtrip [OF v store_run0 f] v store_run0 show ?thesis
    by (simp add: checkin0_def)
qed

text \<open>
  C7.  Every successful submit grows the metadata index by exactly one record, appended at
  the end: \<^verbatim>\<open>getAllCheckins\<close> afterwards is the previous list followed by the new record.
  This holds of \<^verbatim>\<open>storeCheckin\<close>, the append itself, and of \<^verbatim>\<open>storeCompleteCheckin\<close>,
  where the appended record is the returned one up to its timestamp.
\<close>

theorem C7_index_grows_by_one:
  "(storeCheckin E d w = (Inr k, w') \<longrightarrow>
      getAllCheckins w' = getAllCheckins w @
        [\<lparr>userCode = userCode d, timestamp = timestamp d, location = location d,
          imageId = imageId d, submissionId = submissionId d, checkin_id = k\<rparr>]) \<and>
   (storeCompleteCheckin E uc loc b sid w = (Inr r, w'') \<longrightarrow>
      (\<exists>t. getAllCheckins w'' = getAllCheckins w @ [r\<lparr>timestamp := t\<rparr>]) \<and>
      length (getAllCheckins w'') = length (getAllCheckins w) + 1)"
proof (intro conjI impI)
  assume "storeCheckin E d w = (Inr k, w')"
  from storeCheckin_Inr(5) [OF this]
  show "getAllCheckins w' = getAllCheckins w @
        [\<lparr>userCode = userCode d, timestamp = timestamp d, location = location d,
          imageId = imageId d, submissionId = submissionId d, checkin_id = k\<rparr>]"
    by (simp add: getAllCheckins_def)
next
  assume a: "storeCompleteCheckin E uc loc b sid w = (Inr r, w'')"
  from storeCompleteCheckin_index(1) [OF a]
  show "\<exists>t. getAllCheckins w'' = getAllCheckins w @ [r\<lparr>timestamp := t\<rparr>]"
    by blast
  from storeCompleteCheckin_index(1) [OF a]
  show "length (getAllCheckins w'') = length (getAllCheckins w) + 1"
    by simp
qed

theorem C7_index_grows_by_one_witness:
  "storeCompleteCheckin env0 ''FIELD_02'' loc0 [4, 5] ''VER-DEF456'' world1 = (Inr checkin1, world2) \<and>
   getAllCheckins world1 = [checkin0\<lparr>timestamp := 1005\<rparr>] \<and>
   (\<exists>t. getAllCheckins world2 = [checkin0\<lparr>timestamp := 1005\<rparr>, checkin1\<lparr>timestamp := t\<rparr>]) \<and>
   length (getAllCheckins world2) = 2"
proof -
  have g: "getAllCheckins world1 = [checkin0\<lparr>timestamp := 1005\<rparr>]"
    by (simp add: getAllCheckins_def world1_def)
  from C7_index_grows_by_one [where E = env0 and w = world1 and uc = "''FIELD_02''" and loc = loc0
      and b = "[4, 5]" and sid = "''VER-DEF456''" and r = checkin1 and w'' = world2]
  have "(\<exists>t. getAllCheckins world2 = getAllCheckins world1 @ [checkin1\<lparr>timestamp := t\<rparr>]) \<and>
      length (getAllCheckins world2) = length (getAllCheckins world1) + 1"
    using store_run1 by blast
  with g store_run1 show ?thesis
    by simp
qed

text \<open>
  C10.  The record that a successful \<^verbatim>\<open>storeCompleteCheckin\<close> returns agrees with the
  record it appended to the index on id, user code, location, image id and submission id.
  The timestamp of the appended record is one clock reading, that of the returned record is
  a later one (four interactions later, the last interaction of the call), so the two may
  differ.
\<close>

theorem C10_returned_versus_persisted:
  assumes "storeCompleteCheckin E uc loc b sid w = (Inr r, w')"
  shows "\<exists>p. getAllCheckins w' = getAllCheckins w @ [p] \<and>
           checkin_id p = checkin_id r \<and> userCode p = userCode r \<and> location p = location r \<and>
           imageId p = imageId r \<and> submissionId p = submissionId r \<and>
           5 \<le> tick w' \<and> timestamp p = clock E (tick w' - 5) \<and>
           timestamp r = clock E (tick w' - 1)"
  using storeCompleteCheckin_index(1,2,3) [OF assms]
  by (intro exI [of _ "r\<lparr>timestamp := clock E (tick w' - 5)\<rparr>"]) simp

theorem C10_returned_versus_persisted_witness:
  "storeCompleteCheckin env0 ''FIELD_01'' loc0 [1, 2, 3] ''VER-ABC123'' world0 = (Inr checkin0, world1) \<and>
   (\<exists>p. getAllCheckins world1 = [p] \<and> checkin_id p = checkin_id checkin0 \<and>
      timestamp p = 1005 \<and> timestamp checkin0 = 1009 \<and> timestamp p \<noteq> timestamp checkin0)"
proof -
  from C10_returned_versus_persisted [OF store_run0] obtain p where
    "getAllCheckins world1 = getAllCheckins world0 @ [p]" "checkin_id p = checkin_id checkin0"
    "timestamp p = clock env0 (tick world1 - 5)" "timestamp checkin0 = clock env0 (tick world1 - 1)"
    by blast
  then have "getAllCheckins world1 = [p] \<and> checkin_id p = checkin_id checkin0 \<and>
      timestamp p = 1005 \<and> timestamp checkin0 = 1009 \<and> timestamp p \<noteq> timestamp checkin0"
    by (simp add: getAllCheckins_def world0_def world1_def env0_def)
  with store_run0 show ?thesis
    by blast
qed

text \<open>
  C6.  After \<^verbatim>\<open>clearAllData\<close> has succeeded, the next \<^verbatim>\<open>getStorageStats\<close> returns
  \<^verbatim>\<open>totalCheckins = 0\<close> and \<^verbatim>\<open>totalImages = 0\<close>, whatever was stored before; it
  returns unless its own count request fails in the platform.
\<close>

theorem C6_clear_then_stats:
  assumes "clearAllData E w = (Inr (), w1)"
  shows "case fst (getStorageStats E w1) of
           Inr st \<Rightarrow> totalCheckins st = 0 \<and> totalImages st = 0
         | Inl e \<Rightarrow> fault E (tick w1) = Some e"
  using assms
  by (auto simp: clearAllData_def getStorageStats_def ensureDB_def initDB_def Let_def
      getAllCheckins_def split: if_splits option.splits)

theorem C6_clear_then_stats_witness:
  "clearAllData env0 world1 = (Inr (), world_cleared) \<and> length (getAllCheckins world1) = 1 \<and>
   length (images world1) = 1 \<and>
   (\<exists>st. fst (getStorageStats env0 world_cleared) = Inr st \<and> totalCheckins st = 0 \<and>
      totalImages st = 0)"
proof -
  have "\<exists>st. fst (getStorageStats env0 world_cleared) = Inr st"
    by (simp add: getStorageStats_def ensureDB_def Let_def env0_def world_cleared_def)
  then obtain st where st: "fst (getStorageStats env0 world_cleared) = Inr st"
    by blast
  with C6_clear_then_stats [OF clear_run1] have "totalCheckins st = 0 \<and> totalImages st = 0"
    by simp
  with st clear_run1 show ?thesis
    by (simp add: world1_def getAllCheckins_def)
qed

text \<open>
  C9.  A failure of the remote backend during a statistics query never reaches the caller of
  \<^verbatim>\<open>getStats\<close>, in the Firebase adapter and in the Supabase adapter: whatever fails in
  the \<^verbatim>\<open>try\<close> block, and a failing query does, the result is the all-zero statistics,
  which is also the result over an empty collection.
\<close>

theorem C9_stats_failure_is_zero:
  "(fst (fb_getStats_try E w) = Inl e \<longrightarrow> fst (fb_getStats E w) = zero_stats) \<and>
   (firestore E (tick w) = Inl e \<longrightarrow> fst (fb_getStats_try E w) = Inl e) \<and>
   (firestore E (tick w) = Inr [] \<longrightarrow> fst (fb_getStats E w) = zero_stats) \<and>
   (fst (sb_getStats_try E w) = Inl e \<longrightarrow> fst (sb_getStats E w) = zero_stats) \<and>
   (supabase E (tick w) = Inl e \<longrightarrow> fst (sb_getStats_try E w) = Inl e) \<and>
   (supabase E (tick w) = Inr resp \<and> sb_error resp = Some e \<longrightarrow>
      fst (sb_getStats_try E w) = Inl e) \<and>
   (supabase E (tick w) = Inr \<lparr>sb_data = Some [], sb_error = None\<rparr> \<longrightarrow>
      fst (sb_getStats E w) = zero_stats)"
  by (auto simp: fb_getStats_def fb_getStats_try_def fb_getAllCheckins_def sb_getStats_def
      sb_getStats_try_def Date_now_def Let_def zero_stats_def split: prod.splits sum.splits)

theorem C9_stats_failure_is_zero_witness:
  "firestore env_down (tick world0) = Inl unavailable \<and>
   fst (fb_getStats env_down world0) = zero_stats \<and>
   fst (fb_getStats env0 world0) = zero_stats \<and>
   supabase env_down (tick world0) = Inl unavailable \<and>
   fst (sb_getStats env_down world0) = zero_stats \<and>
   fst (sb_getStats env0 world0) = zero_stats"
proof -
  have d: "firestore env_down (tick world0) = Inl unavailable"
    "supabase env_down (tick world0) = Inl unavailable"
    by (simp_all add: env_down_def env0_def)
  have z: "firestore env0 (tick world0) = Inr []"
    "supabase env0 (tick world0) = Inr \<lparr>sb_data = Some [], sb_error = None\<rparr>"
    by (simp_all add: env0_def)
  from C9_stats_failure_is_zero [of env_down world0 unavailable] d
  have "fst (fb_getStats env_down world0) = zero_stats"
    "fst (sb_getStats env_down world0) = zero_stats"
    by simp_all
  moreover from C9_stats_failure_is_zero [of env0 world0] z
  have "fst (fb_getStats env0 world0) = zero_stats" "fst (sb_getStats env0 world0) = zero_stats"
    by simp_all
  ultimately show ?thesis
    using d by simp
qed

subsection \<open>The sync orchestrator\<close>

lemma post_json_effect:
  assumes "post_json E p f w = (resp, w')"
  shows "db w' = db w" and "images w' = images w" and "selfie_checkins w' = selfie_checkins w"
    and "trace w' = trace w @ [Fetch p]" and "tick w' = Suc (tick w)"
    and "fetch_failed (network E (tick w)) \<Longrightarrow> \<not> success resp"
  using assms
  by (auto simp: post_json_def Let_def failed_def
      split: fetch_result.splits sum.splits if_splits)

lemma get_prop_truthy [simp]: "truthy v \<Longrightarrow> get_prop v k \<noteq> Inl e"
  by (cases v) auto

text \<open>
  \<^verbatim>\<open>submitCompleteCheckin\<close> touches nothing of the local store; it posts the record and,
  when that post came back well, the image; a failed request makes it unsuccessful.
\<close>

lemma submitCompleteCheckin_effect:
  assumes "submitCompleteCheckin E d b w = (resp, w')"
  shows "db w' = db w" and "images w' = images w" and "selfie_checkins w' = selfie_checkins w"
    and "trace w' = trace w @ [Fetch ''/checkins''] \<or>
         trace w' = trace w @ [Fetch ''/checkins'', Fetch ''/upload-image'']"
    and "fetch_failed (network E (tick w)) \<Longrightarrow> \<not> success resp"
    and "trace w' = trace w @ [Fetch ''/checkins'', Fetch ''/upload-image''] \<Longrightarrow>
         fetch_failed (network E (Suc (tick w))) \<Longrightarrow> \<not> success resp"
proof -
  obtain r1 w1 where s1: "submitCheckin E d w = (r1, w1)"
    by (cases "submitCheckin E d w")
  note e1 = post_json_effect [OF s1 [unfolded submitCheckin_def]]
  obtain r2 w2 where s2: "uploadImage E b v w1 = (r2, w2)" for v
    by (cases "uploadImage E b Undefined w1") (simp add: uploadImage_def)
  note e2 = post_json_effect [OF s2 [unfolded uploadImage_def]]
  have c: "(resp, w') = (r1, w1) \<and> (\<not> success r1 \<or> \<not> truthy (data r1)) \<or>
           w' = w2 \<and> success r1 \<and> (resp = r2 \<or> \<not> success resp \<or> success r2)"
    using assms s1 s2
    by (auto simp: submitCompleteCheckin_def Let_def failed_def split: sum.splits if_splits)
  show "db w' = db w" "images w' = images w" "selfie_checkins w' = selfie_checkins w"
    using c e1 e2 by auto
  show "trace w' = trace w @ [Fetch ''/checkins''] \<or>
         trace w' = trace w @ [Fetch ''/checkins'', Fetch ''/upload-image'']"
    using c e1 e2 by auto
  show "\<not> success resp" if "fetch_failed (network E (tick w))"
    using c e1(6) [OF that] by auto
  show "\<not> success resp"
    if "trace w' = trace w @ [Fetch ''/checkins'', Fetch ''/upload-image'']"
      and "fetch_failed (network E (Suc (tick w)))"
  proof -
    have "\<not> success r2"
      using e2(6) that(2) e1(5) by simp
    then show ?thesis
      using assms s1 s2 that(1) e1(4)
      by (auto simp: submitCompleteCheckin_def Let_def failed_def split: sum.splits if_splits)
  qed
qed

lemma healthCheck_effect:
  assumes "healthCheck E w = (h, w')"
  shows "db w' = db w" and "images w' = images w" and "selfie_checkins w' = selfie_checkins w"
    and "trace w' = trace w @ [Fetch ''/health'']" and "tick w' = Suc (tick w)"
    and "h = (\<not> unreachable (network E (tick w)))"
  using assms
  by (auto simp: healthCheck_def Let_def split: fetch_result.splits)

text \<open>
  C2.  Whenever the local commit succeeds (\<^verbatim>\<open>storeCompleteCheckin\<close> returns \<open>r\<close> and leaves
  \<open>w1\<close>), \<^verbatim>\<open>storeCheckinWithSync\<close> returns normally with the local id.  Its events are the
  blob write and the append of the local commit, followed by requests to the server only:
  the local commit precedes every remote attempt.  If the server is unreachable, or the post
  of the record fails, or the upload of the image is made and fails, the outcome has
  \<^verbatim>\<open>synced: false\<close>.  Afterwards the index is the previous one followed by the new
  record, and \<^verbatim>\<open>getImage\<close> still resolves its image to the bytes supplied.
\<close>

theorem C2_local_commit_first:
  assumes "storeCompleteCheckin E uc loc b sid w = (Inr r, w1)"
  shows "\<exists>res w' remote.
           storeCheckinWithSync E uc loc b sid w = (Inr res, w') \<and>
           localId res = checkin_id r \<and>
           trace w1 = trace w @ [IdbAdd (imageId r), SetItem] \<and>
           trace w' = trace w1 @ remote \<and> remote \<noteq> [] \<and> list_all remote_event remote \<and>
           (unreachable (network E (tick w1)) \<or>
            fetch_failed (network E (tick w1 + 2)) \<or>
            Fetch ''/upload-image'' \<in> set remote \<and> fetch_failed (network E (tick w1 + 3))
              \<longrightarrow> \<not> synced res) \<and>
           getAllCheckins w' = getAllCheckins w @ [r\<lparr>timestamp := clock E (tick w1 - 5)\<rparr>] \<and>
           (fault E (tick w') = None \<longrightarrow> fst (getImage E (imageId r) w') = Inr (Some b))"
proof -
  note idx = storeCompleteCheckin_index [OF assms] and img = stored_image_after [OF assms]
  obtain h w2 where hc: "healthCheck E w1 = (h, w2)"
    by (cases "healthCheck E w1")
  note eh = healthCheck_effect [OF hc]
  show ?thesis
  proof (cases h)
    case False
    let ?res = "\<lparr>localId = checkin_id r, synced = False, sync_error = Some ''Server not available''\<rparr>"
    have run: "storeCheckinWithSync E uc loc b sid w = (Inr ?res, w2)"
      using assms hc False by (simp add: storeCheckinWithSync_def)
    have g: "getAllCheckins w2 = getAllCheckins w1"
      using eh(3) by (simp add: getAllCheckins_def)
    have i: "fst (getImage E (imageId r) w2) = Inr (Some b)" if "fault E (tick w2) = None"
      using that img eh(1,2) by (simp add: getImage_db)
    show ?thesis
      using run idx(1,4) eh(4) g i
      by (intro exI [of _ ?res] exI [of _ w2] exI [of _ "[Fetch ''/health'']"]) simp
  next
    case True
    let ?d = "\<lparr>api_userCode = uc, api_timestamp = clock E (tick w2), api_location = loc,
               api_submissionId = sid\<rparr>"
    let ?w3 = "w2\<lparr>tick := Suc (tick w2)\<rparr>"
    obtain resp w4 where sc: "submitCompleteCheckin E ?d b ?w3 = (resp, w4)"
      by (cases "submitCompleteCheckin E ?d b ?w3")
    note es = submitCompleteCheckin_effect [OF sc]
    let ?res = "\<lparr>localId = checkin_id r, synced = success resp,
                  sync_error = (if success resp then None else error resp)\<rparr>"
    have run: "storeCheckinWithSync E uc loc b sid w = (Inr ?res, w4)"
      using assms hc True sc by (simp add: storeCheckinWithSync_def Date_now_def)
    have g: "getAllCheckins w4 = getAllCheckins w1"
      using eh(3) es(3) by (simp add: getAllCheckins_def)
    have i: "fst (getImage E (imageId r) w4) = Inr (Some b)" if "fault E (tick w4) = None"
      using that img eh(1,2) es(1,2) by (simp add: getImage_db)
    have t3: "tick ?w3 = tick w1 + 2"
      using eh(5) by simp
    from es(4) obtain remote where
      tr: "trace w4 = trace w1 @ remote" and ne: "remote \<noteq> []" and re: "list_all remote_event remote"
      and up: "Fetch ''/upload-image'' \<in> set remote \<Longrightarrow>
               trace w4 = trace ?w3 @ [Fetch ''/checkins'', Fetch ''/upload-image'']"
    proof
      assume a: "trace w4 = trace ?w3 @ [Fetch ''/checkins'']"
      show ?thesis
        by (rule that [of "[Fetch ''/health'', Fetch ''/checkins'']"]) (use a eh(4) in simp_all)
    next
      assume a: "trace w4 = trace ?w3 @ [Fetch ''/checkins'', Fetch ''/upload-image'']"
      show ?thesis
        by (rule that [of "[Fetch ''/health'', Fetch ''/checkins'', Fetch ''/upload-image'']"])
          (use a eh(4) in simp_all)
    qed
    have f: "\<not> success resp"
      if "unreachable (network E (tick w1)) \<or>
            fetch_failed (network E (tick w1 + 2)) \<or>
            Fetch ''/upload-image'' \<in> set remote \<and> fetch_failed (network E (tick w1 + 3))"
      using that
    proof (elim disjE conjE)
      assume "unreachable (network E (tick w1))"
      with eh(6) True show ?thesis by simp
    next
      assume "fetch_failed (network E (tick w1 + 2))"
      with es(5) t3 show ?thesis by simp
    next
      assume "Fetch ''/upload-image'' \<in> set remote" and "fetch_failed (network E (tick w1 + 3))"
      with es(6) up t3 show ?thesis by (simp add: eval_nat_numeral)
    qed
    show ?thesis
      using run idx(1,4) tr ne re f g i
      by (intro exI [of _ ?res] exI [of _ w4] exI [of _ remote]) simp
  qed
qed

theorem C2_local_commit_first_witness:
  "storeCompleteCheckin env0 ''FIELD_01'' loc0 [1, 2, 3] ''VER-ABC123'' world0 = (Inr checkin0, world1) \<and>
   unreachable (network env0 (tick world1)) \<and>
   (\<exists>res w'. storeCheckinWithSync env0 ''FIELD_01'' loc0 [1, 2, 3] ''VER-ABC123'' world0 = (Inr res, w') \<and>
      localId res = ''checkin_1006_k3x9q0z7a'' \<and> \<not> synced res \<and>
      getAllCheckins w' = [checkin0\<lparr>timestamp := 1005\<rparr>] \<and>
      fst (getImage env0 ''img_1001_k3x9q0z7a'' w') = Inr (Some [1, 2, 3]))"
proof -
  have u: "unreachable (network env0 (tick world1))"
    by (simp add: env0_def)
  have f: "fault env0 n = None" for n
    by (simp add: env0_def)
  from C2_local_commit_first [OF store_run0] obtain res w' remote where
    run: "storeCheckinWithSync env0 ''FIELD_01'' loc0 [1, 2, 3] ''VER-ABC123'' world0 = (Inr res, w')"
    and l: "localId res = checkin_id checkin0"
    and "trace world1 = trace world0 @ [IdbAdd (imageId checkin0), SetItem]"
    and "trace w' = trace world1 @ remote" and "remote \<noteq> []" and "list_all remote_event remote"
    and s: "unreachable (network env0 (tick world1)) \<or>
            fetch_failed (network env0 (tick world1 + 2)) \<or>
            Fetch ''/upload-image'' \<in> set remote \<and> fetch_failed (network env0 (tick world1 + 3))
              \<longrightarrow> \<not> synced res"
    and g: "getAllCheckins w' =
       getAllCheckins world0 @ [checkin0\<lparr>timestamp := clock env0 (tick world1 - 5)\<rparr>]"
    and i: "fault env0 (tick w') = None \<longrightarrow>
       fst (getImage env0 (imageId checkin0) w') = Inr (Some [1, 2, 3])"
    by (elim exE conjE) (rule that; assumption)
  from s u have "\<not> synced res"
    by simp
  moreover from l have "localId res = ''checkin_1006_k3x9q0z7a''"
    by (simp add: checkin0_def)
  moreover from g have "getAllCheckins w' = [checkin0\<lparr>timestamp := 1005\<rparr>]"
    by (simp add: getAllCheckins_def world0_def world1_def env0_def)
  moreover from i f have "fst (getImage env0 ''img_1001_k3x9q0z7a'' w') = Inr (Some [1, 2, 3])"
    by (simp add: checkin0_def)
  ultimately have "storeCheckinWithSync env0 ''FIELD_01'' loc0 [1, 2, 3] ''VER-ABC123'' world0 = (Inr res, w') \<and>
      localId res = ''checkin_1006_k3x9q0z7a'' \<and> \<not> synced res \<and>
      getAllCheckins w' = [checkin0\<lparr>timestamp := 1005\<rparr>] \<and>
      fst (getImage env0 ''img_1001_k3x9q0z7a'' w') = Inr (Some [1, 2, 3])"
    using run by simp
  with store_run0 u show ?thesis
    by blast
qed

subsection \<open>Errors of the record assembler\<close>

text \<open>
  C3, as stated: a call of \<^verbatim>\<open>storeCompleteCheckin\<close> with an empty user code or a reading out
  of range is rejected with a validation error before any blob write or append.  The
  program has no such test: the call below, with an empty user code, latitude 91, longitude
  181 and accuracy -1, writes the blob, appends the record and returns it.
\<close>

theorem C3_counterexample:
  "\<not> spec_valid_input [] loc_bad [1, 2, 3] \<and> \<not> spec_valid_location loc_bad \<and>
   storeCompleteCheckin env0 [] loc_bad [1, 2, 3] ''VER-ABC123'' world0 = (Inr checkin_bad, world_bad) \<and>
   trace world_bad = [IdbAdd ''img_1001_k3x9q0z7a'', SetItem] \<and>
   getAllCheckins world_bad = [checkin_bad\<lparr>timestamp := 1005\<rparr>]"
  using store_run_bad
  by (simp add: spec_valid_input_def spec_valid_location_def loc_bad_def world_bad_def
      getAllCheckins_def)

text \<open>
  C3, amended.  \<^verbatim>\<open>storeCompleteCheckin\<close> does not validate its input: for every user code
  (the empty one too) and every reading (in range or not), if the blob write succeeds and
  \<^verbatim>\<open>localStorage.setItem\<close> does not throw, the call writes the blob, appends the record
  with that user code and reading, and returns it.
\<close>

theorem C3_no_validation:
  assumes "storeImage E b w = (Inr k, w1)" and "fault E (tick w1 + 3) = None"
  shows "\<exists>r w'. storeCompleteCheckin E uc loc b sid w = (Inr r, w') \<and>
           userCode r = uc \<and> location r = loc \<and> imageId r = k \<and>
           trace w' = trace w @ [IdbAdd k, SetItem] \<and>
           getAllCheckins w' = getAllCheckins w @ [r\<lparr>timestamp := clock E (tick w1)\<rparr>]"
proof -
  have "\<exists>r w'. storeCompleteCheckin E uc loc b sid w = (Inr r, w') \<and>
           userCode r = uc \<and> location r = loc \<and> imageId r = k \<and> tick w' = tick w1 + 5"
    using assms
    by (simp add: storeCompleteCheckin_def storeCheckin_def Date_now_def random_suffix_def Let_def
        eval_nat_numeral)
  then obtain r w' where run: "storeCompleteCheckin E uc loc b sid w = (Inr r, w')"
    and r: "userCode r = uc" "location r = loc" "imageId r = k" and t: "tick w' = tick w1 + 5"
    by blast
  from storeCompleteCheckin_index(1,4) [OF run] r t
  have "trace w' = trace w @ [IdbAdd k, SetItem]"
    "getAllCheckins w' = getAllCheckins w @ [r\<lparr>timestamp := clock E (tick w1)\<rparr>]"
    by simp_all
  with run r show ?thesis
    by blast
qed

theorem C3_no_validation_witness:
  "\<not> spec_valid_input [] loc_bad [1, 2, 3] \<and>
   (\<exists>r w'. storeCompleteCheckin env0 [] loc_bad [1, 2, 3] ''VER-ABC123'' world0 = (Inr r, w') \<and>
      userCode r = [] \<and> location r = loc_bad \<and>
      trace w' = [IdbAdd ''img_1001_k3x9q0z7a'', SetItem])"
proof -
  have si: "storeImage env0 [1, 2, 3] world0 =
      (Inr ''img_1001_k3x9q0z7a'', snd (storeImage env0 [1, 2, 3] world0))"
    by (simp add: store_defs env0_def world0_def)
  have f: "fault env0 (tick (snd (storeImage env0 [1, 2, 3] world0)) + 3) = None"
    by (simp add: env0_def)
  from C3_no_validation [OF si f, of "[]" loc_bad "''VER-ABC123''"] obtain r w' where
    "storeCompleteCheckin env0 [] loc_bad [1, 2, 3] ''VER-ABC123'' world0 = (Inr r, w')"
    "userCode r = []" "location r = loc_bad"
    "trace w' = trace world0 @ [IdbAdd ''img_1001_k3x9q0z7a'', SetItem]"
    by blast
  then have "\<exists>r w'. storeCompleteCheckin env0 [] loc_bad [1, 2, 3] ''VER-ABC123'' world0 = (Inr r, w') \<and>
      userCode r = [] \<and> location r = loc_bad \<and>
      trace w' = [IdbAdd ''img_1001_k3x9q0z7a'', SetItem]"
    by (simp add: world0_def)
  then show ?thesis
    by (simp add: spec_valid_input_def)
qed

text \<open>
  C5, as stated: a fault under \<^verbatim>\<open>storeCompleteCheckin\<close> surfaces as one error that
  preserves the original cause.  Here the write of the blob fails with a
  \<^verbatim>\<open>QuotaExceededError\<close>; what is thrown is a new \<^verbatim>\<open>Error\<close> with a fixed message and no
  cause.
\<close>

theorem C5_counterexample:
  "fst (storeImage env_blob_fault [1, 2, 3] world0) = Inl quota \<and>
   fst (storeCompleteCheckin env_blob_fault ''FIELD_01'' loc0 [1, 2, 3] ''VER-ABC123'' world0) =
     Inl (JsError ''Error'' ''Failed to store check-in data'' None) \<and>
   \<not> spec_preserves_cause (JsError ''Error'' ''Failed to store check-in data'' None) quota"
  by (simp add: store_defs env_blob_fault_def env0_def world0_def quota_def
      spec_preserves_cause_def)

text \<open>
  C5, amended.  Every error of \<^verbatim>\<open>storeCompleteCheckin\<close> is the same
  \<^verbatim>\<open>Error('Failed to store check-in data')\<close>, without a cause; it is what the call throws
  when the write of the blob fails, and when the blob is written and
  \<^verbatim>\<open>localStorage.setItem\<close> throws.
\<close>

theorem C5_generic_storage_error:
  "(fst (storeCompleteCheckin E uc loc b sid w) = Inl e \<longrightarrow>
      e = JsError ''Error'' ''Failed to store check-in data'' None) \<and>
   (fst (storeImage E b w) = Inl c \<longrightarrow>
      fst (storeCompleteCheckin E uc loc b sid w) =
        Inl (JsError ''Error'' ''Failed to store check-in data'' None)) \<and>
   (storeImage E b w = (Inr k, w1) \<and> fault E (tick w1 + 3) = Some c \<longrightarrow>
      fst (storeCompleteCheckin E uc loc b sid w) =
        Inl (JsError ''Error'' ''Failed to store check-in data'' None))"
  by (auto simp: storeCompleteCheckin_def storeCheckin_def Date_now_def random_suffix_def Let_def
      new_Error_def eval_nat_numeral split: prod.splits sum.splits option.splits)

theorem C5_generic_storage_error_witness:
  "fst (storeImage env_index_fault [1, 2, 3] world0) = Inr ''img_1001_k3x9q0z7a'' \<and>
   fault env_index_fault 8 = Some quota \<and>
   fst (storeCompleteCheckin env_index_fault ''FIELD_01'' loc0 [1, 2, 3] ''VER-ABC123'' world0) =
     Inl (JsError ''Error'' ''Failed to store check-in data'' None)"
proof -
  have s1: "fst (storeImage env_index_fault [1, 2, 3] world0) = Inr ''img_1001_k3x9q0z7a''"
    by (simp add: store_defs env_index_fault_def env0_def world0_def)
  then have si: "storeImage env_index_fault [1, 2, 3] world0 =
      (Inr ''img_1001_k3x9q0z7a'', snd (storeImage env_index_fault [1, 2, 3] world0))"
    by (cases "storeImage env_index_fault [1, 2, 3] world0") simp
  have f: "fault env_index_fault (tick (snd (storeImage env_index_fault [1, 2, 3] world0)) + 3) =
      Some quota"
    by (simp add: store_defs env_index_fault_def env0_def world0_def)
  have q: "fault env_index_fault 8 = Some quota"
    by (simp add: env_index_fault_def)
  from C5_generic_storage_error [where E = env_index_fault and b = "[1, 2, 3]" and w = world0
      and k = "''img_1001_k3x9q0z7a''" and c = quota
      and ?w1.0 = "snd (storeImage env_index_fault [1, 2, 3] world0)"
      and uc = "''FIELD_01''" and loc = loc0 and sid = "''VER-ABC123''"] si f
  have "fst (storeCompleteCheckin env_index_fault ''FIELD_01'' loc0 [1, 2, 3] ''VER-ABC123'' world0) =
     Inl (JsError ''Error'' ''Failed to store check-in data'' None)"
    by blast
  with s1 q show ?thesis
    by simp
qed

subsection \<open>Export\<close>

lemma getImage_no_fault:
  assumes "\<forall>n\<ge>tick w. fault E n = None"
  shows "\<exists>w1. getImage E k w = (Inr (map_option img_blob (idb_get (images w) k)), w1) \<and>
           images w1 = images w \<and> tick w \<le> tick w1"
  using assms
  by (auto simp: getImage_def ensureDB_def initDB_def Let_def split: option.splits)

text \<open>
  The loop of the export, no request failing: every record is visited, and the object
  built gets an entry for each record whose image is found.
\<close>

lemma exportLoop_no_fault:
  assumes "\<forall>n\<ge>tick w. fault E n = None"
  shows "\<exists>w'. exportLoop E cs im w =
           (Inr (\<lambda>k. if k \<in> imageId ` set cs
                      then (case idb_get (images w) k of
                              Some i \<Rightarrow> Some (readAsDataURL E (img_blob i))
                            | None \<Rightarrow> im k)
                      else im k), w')"
  using assms
proof (induction cs arbitrary: im w)
  case Nil
  then show ?case by simp
next
  case (Cons c cs)
  from getImage_no_fault [OF Cons.prems, of "imageId c"] obtain w1 where
    g: "getImage E (imageId c) w = (Inr (map_option img_blob (idb_get (images w) (imageId c))), w1)"
    and i: "images w1 = images w" and t: "tick w \<le> tick w1"
    by blast
  from t Cons.prems have f: "\<forall>n\<ge>tick w1. fault E n = None"
    by simp
  show ?case
  proof (cases "idb_get (images w) (imageId c)")
    case None
    from Cons.IH [OF f, of im] obtain w' where
      "exportLoop E cs im w1 =
         (Inr (\<lambda>k. if k \<in> imageId ` set cs
                    then (case idb_get (images w1) k of
                            Some i \<Rightarrow> Some (readAsDataURL E (img_blob i))
                          | None \<Rightarrow> im k)
                    else im k), w')"
      by blast
    with g None i show ?thesis
      by (auto simp: fun_eq_iff split: option.splits)
  next
    case (Some s)
    from Cons.IH [OF f, of "im(imageId c \<mapsto> readAsDataURL E (img_blob s))"] obtain w' where
      "exportLoop E cs (im(imageId c \<mapsto> readAsDataURL E (img_blob s))) w1 =
         (Inr (\<lambda>k. if k \<in> imageId ` set cs
                    then (case idb_get (images w1) k of
                            Some i \<Rightarrow> Some (readAsDataURL E (img_blob i))
                          | None \<Rightarrow> (im(imageId c \<mapsto> readAsDataURL E (img_blob s))) k)
                    else (im(imageId c \<mapsto> readAsDataURL E (img_blob s))) k), w')"
      by blast
    with g Some i show ?thesis
      by (auto simp: fun_eq_iff split: option.splits)
  qed
qed

text \<open>
  C4, as stated: when the image of some record is not in the object store, \<^verbatim>\<open>exportData\<close>
  fails as a whole.  In the state below the second record refers to an image that is not
  stored; the export succeeds, returns both records and the one image there is.
\<close>

theorem C4_counterexample:
  "getAllCheckins world_dangling = [checkin0\<lparr>timestamp := 1005\<rparr>, checkin_dangling] \<and>
   idb_get (images world_dangling) (imageId checkin_dangling) = None \<and>
   fst (exportData env0 world_dangling) =
     Inr \<lparr>exp_checkins = [checkin0\<lparr>timestamp := 1005\<rparr>, checkin_dangling],
          exp_images = [''img_1001_k3x9q0z7a'' \<mapsto> readAsDataURL env0 [1, 2, 3]]\<rparr>"
  by (simp add: exportData_def getImage_def ensureDB_def idb_get_def getAllCheckins_def Let_def
      world_dangling_def world1_def checkin0_def checkin_dangling_def env0_def)

text \<open>
  C4, amended.  A record whose image is not in the object store does not make
  \<^verbatim>\<open>exportData\<close> fail: no request of the platform failing, the export succeeds for
  every state of the store, returns every record of the index, and its \<^verbatim>\<open>images\<close> has an
  entry, the data URL of the blob, for exactly the image ids of records that resolve; a
  record with a missing blob is passed over.
\<close>

theorem C4_export_skips_missing:
  assumes "\<forall>n\<ge>tick w. fault E n = None"
  shows "\<exists>x w'. exportData E w = (Inr x, w') \<and> exp_checkins x = getAllCheckins w \<and>
           (\<forall>k. exp_images x k =
              (if k \<in> imageId ` set (getAllCheckins w)
               then map_option (\<lambda>i. readAsDataURL E (img_blob i)) (idb_get (images w) k)
               else None))"
proof -
  from exportLoop_no_fault [OF assms, of "getAllCheckins w" Map.empty] obtain w' where
    "exportLoop E (getAllCheckins w) Map.empty w =
       (Inr (\<lambda>k. if k \<in> imageId ` set (getAllCheckins w)
                  then (case idb_get (images w) k of
                          Some i \<Rightarrow> Some (readAsDataURL E (img_blob i))
                        | None \<Rightarrow> None)
                  else None), w')"
    by blast
  then show ?thesis
    by (auto simp: exportData_def Let_def split: option.splits)
qed

theorem C4_export_skips_missing_witness:
  "fault env0 = (\<lambda>n. None) \<and>
   (\<exists>x w'. exportData env0 world_dangling = (Inr x, w') \<and>
      exp_checkins x = [checkin0\<lparr>timestamp := 1005\<rparr>, checkin_dangling] \<and>
      exp_images x ''img_1001_k3x9q0z7a'' = Some (readAsDataURL env0 [1, 2, 3]) \<and>
      exp_images x ''img_999_gone00000'' = None)"
proof -
  have f: "\<forall>n\<ge>tick world_dangling. fault env0 n = None"
    by (simp add: env0_def)
  from C4_export_skips_missing [OF f] obtain x w' where
    run: "exportData env0 world_dangling = (Inr x, w')"
    and c: "exp_checkins x = getAllCheckins world_dangling"
    and i: "\<And>k. exp_images x k =
              (if k \<in> imageId ` set (getAllCheckins world_dangling)
               then map_option (\<lambda>i. readAsDataURL env0 (img_blob i))
                      (idb_get (images world_dangling) k)
               else None)"
    by blast
  have "exp_checkins x = [checkin0\<lparr>timestamp := 1005\<rparr>, checkin_dangling]"
    using c by (simp add: getAllCheckins_def world_dangling_def)
  moreover have "exp_images x ''img_1001_k3x9q0z7a'' = Some (readAsDataURL env0 [1, 2, 3])"
    by (subst i)
      (simp add: getAllCheckins_def world_dangling_def world1_def checkin0_def
        checkin_dangling_def idb_get_def)
  moreover have "exp_images x ''img_999_gone00000'' = None"
    by (subst i)
      (simp add: getAllCheckins_def world_dangling_def world1_def checkin0_def
        checkin_dangling_def idb_get_def)
  moreover have "fault env0 = (\<lambda>n. None)"
    by (simp add: env0_def)
  ultimately show ?thesis
    using run by blast
qed

subsection \<open>Remote statistics\<close>

lemma fb_getStats_ok:
  assumes "firestore E (tick w) = Inr recs"
  shows "fst (fb_getStats E w) =
    \<lparr>totalCheckins = length recs,
     uniqueUsers = length (remdups (map fb_userCode recs)),
     todayCheckins =
       length (filter (\<lambda>c. valid_date (fb_timestamp c) \<and>
                 setHours0 E (clock E (Suc (tick w))) \<le> fb_timestamp c) recs),
     thisWeekCheckins =
       length (filter (\<lambda>c. valid_date (fb_timestamp c) \<and>
                 setDateMinus7 E (clock E (Suc (Suc (tick w)))) \<le> fb_timestamp c) recs)\<rparr>"
  using assms
  by (simp add: fb_getStats_def fb_getStats_try_def fb_getAllCheckins_def Date_now_def Let_def)

text \<open>The calendar of New York: local dates never go back, also across the change of 2023-11-05.\<close>

lemma ny_localDate_mono: "mono ny_localDate"
proof (rule monoI)
  fix t t' :: int
  assume le: "t \<le> t'"
  consider "t' < 1699164000000" | "1699164000000 \<le> t" | "t < 1699164000000" "1699164000000 \<le> t'"
    using le by linarith
  then show "ny_localDate t \<le> ny_localDate t'"
  proof cases
    case 1
    with le show ?thesis
      by (simp add: ny_localDate_def ny_offset_def msPerDay_def zdiv_mono1)
  next
    case 2
    with le show ?thesis
      by (simp add: ny_localDate_def ny_offset_def msPerDay_def zdiv_mono1)
  next
    case 3
    have "(t - 14400000) div 86400000 \<le> (1699149600000 :: int) div 86400000"
      using 3(1) by (intro zdiv_mono1) simp_all
    moreover have "(1699146000000 :: int) div 86400000 \<le> (t' - 18000000) div 86400000"
      using 3(2) by (intro zdiv_mono1) simp_all
    ultimately show ?thesis
      using 3 by (simp add: ny_localDate_def ny_offset_def msPerDay_def)
  qed
qed

text \<open>At noon of 2023-11-05 in New York, local midnight (04:00 UTC) is the first instant of the local date.\<close>

lemma ny_first_instant:
  "ny_localDate t = ny_localDate 1699203600000 \<Longrightarrow> ny_setHours0 1699203600000 \<le> t"
proof (rule ccontr)
  assume d: "ny_localDate t = ny_localDate 1699203600000"
    and "\<not> ny_setHours0 1699203600000 \<le> t"
  then have t: "t < 1699156800000"
    by (simp add: ny_setHours0_def ny_instant_def ny_localDate_def ny_offset_def msPerDay_def)
  then have "(t - 14400000) div 86400000 \<le> (1699142399999 :: int) div 86400000"
    by (intro zdiv_mono1) simp_all
  with t have "ny_localDate t \<le> 19665"
    by (simp add: ny_localDate_def ny_offset_def msPerDay_def)
  with d show False
    by (simp add: ny_localDate_def ny_offset_def msPerDay_def)
qed

text \<open>
  C8, as stated: over every collection, \<^verbatim>\<open>todayCheckins\<close> is the number of records created
  within the current calendar day.  The filter of \<^verbatim>\<open>getStats\<close> has a lower bound only: a
  record dated two days ahead of the collector's clock is counted, and it is not of the
  current day.
\<close>

theorem C8_counterexample:
  "todayCheckins (fst (fb_getStats env_future world0)) = 1 \<and>
   length (filter (\<lambda>c. spec_created_today env_future (clock env_future 1) (fb_timestamp c))
      [\<lparr>fb_userCode = ''FIELD_01'', fb_timestamp = 1700200000000\<rparr>]) = 0"
  by (simp add: fb_getStats_def fb_getStats_try_def fb_getAllCheckins_def Date_now_def Let_def
      env_future_def env0_def world0_def msPerDay_def spec_created_today_def valid_date_def)

text \<open>
  C8, amended.  Over every collection of remote records, \<^verbatim>\<open>getStats\<close> of the Firebase
  adapter returns the number of records, the number of distinct user codes, and as
  \<^verbatim>\<open>todayCheckins\<close> the number of records whose timestamp is a valid date at or after the
  instant that \<^verbatim>\<open>setHours(0, 0, 0, 0)\<close> gives for the collector's current time, under the
  rules of the collector's time zone.  That is the number of records created within the
  current local calendar day whenever every timestamp is a valid date and no record is
  dated on a later local date, in a calendar whose local dates never go back as time goes
  on and in which that instant is the first one of the current local date.  Over three records of two user codes, one of them of today, the
  result is 3, 2 and 1.
\<close>

theorem C8_remote_stats:
  assumes "firestore E (tick w) = Inr recs"
    and "s = fst (fb_getStats E w)"
    and "now = clock E (Suc (tick w))"
  shows "totalCheckins s = length recs \<and>
         uniqueUsers s = card (fb_userCode ` set recs) \<and>
         todayCheckins s =
           length (filter (\<lambda>c. valid_date (fb_timestamp c) \<and> setHours0 E now \<le> fb_timestamp c)
             recs) \<and>
         (mono (localDate E) \<and>
          localDate E (setHours0 E now) = localDate E now \<and>
          (\<forall>t. localDate E t = localDate E now \<longrightarrow> setHours0 E now \<le> t) \<and>
          (\<forall>c\<in>set recs. valid_date (fb_timestamp c)) \<and>
          (\<forall>c\<in>set recs. localDate E (fb_timestamp c) \<le> localDate E now) \<longrightarrow>
            todayCheckins s =
              length (filter (\<lambda>c. spec_created_today E now (fb_timestamp c)) recs))"
proof -
  have s: "s = \<lparr>totalCheckins = length recs,
     uniqueUsers = length (remdups (map fb_userCode recs)),
     todayCheckins =
       length (filter (\<lambda>c. valid_date (fb_timestamp c) \<and> setHours0 E now \<le> fb_timestamp c) recs),
     thisWeekCheckins =
       length (filter (\<lambda>c. valid_date (fb_timestamp c) \<and>
                 setDateMinus7 E (clock E (Suc (Suc (tick w)))) \<le> fb_timestamp c) recs)\<rparr>"
    using fb_getStats_ok [OF assms(1)] assms(2,3) by simp
  have u: "length (remdups (map fb_userCode recs)) = card (fb_userCode ` set recs)"
    by (simp add: length_remdups_card_conv)
  have t: "filter (\<lambda>c. valid_date (fb_timestamp c) \<and> setHours0 E now \<le> fb_timestamp c) recs =
           filter (\<lambda>c. spec_created_today E now (fb_timestamp c)) recs"
    if m: "mono (localDate E)"
      and f: "localDate E (setHours0 E now) = localDate E now"
      and l: "\<forall>t. localDate E t = localDate E now \<longrightarrow> setHours0 E now \<le> t"
      and v: "\<forall>c\<in>set recs. valid_date (fb_timestamp c)"
      and n: "\<forall>c\<in>set recs. localDate E (fb_timestamp c) \<le> localDate E now"
  proof (rule filter_cong [OF refl])
    fix c
    assume c: "c \<in> set recs"
    show "(valid_date (fb_timestamp c) \<and> setHours0 E now \<le> fb_timestamp c) =
        spec_created_today E now (fb_timestamp c)"
    proof
      assume "valid_date (fb_timestamp c) \<and> setHours0 E now \<le> fb_timestamp c"
      then have "setHours0 E now \<le> fb_timestamp c"
        by simp
      with m have "localDate E (setHours0 E now) \<le> localDate E (fb_timestamp c)"
        by (rule monoD)
      moreover from n c have "localDate E (fb_timestamp c) \<le> localDate E now"
        by blast
      ultimately show "spec_created_today E now (fb_timestamp c)"
        using f by (simp add: spec_created_today_def)
    next
      assume "spec_created_today E now (fb_timestamp c)"
      with l v c show "valid_date (fb_timestamp c) \<and> setHours0 E now \<le> fb_timestamp c"
        by (simp add: spec_created_today_def)
    qed
  qed
  show ?thesis
    by (subst s)+ (simp add: u t)
qed

theorem C8_remote_stats_witness:
  "length recs3 = 3 \<and> card (fb_userCode ` set recs3) = 2 \<and>
   length (filter (\<lambda>c. spec_created_today env_stats 1699203600000 (fb_timestamp c)) recs3) = 1 \<and>
   setHours0 env_stats 1699203600000 = 1699156800000 \<and>
   totalCheckins (fst (fb_getStats env_stats world0)) = 3 \<and>
   uniqueUsers (fst (fb_getStats env_stats world0)) = 2 \<and>
   todayCheckins (fst (fb_getStats env_stats world0)) = 1"
proof -
  have f: "firestore env_stats (tick world0) = Inr recs3"
    by (simp add: env_stats_def env0_def)
  have n: "(1699203600000::int) = clock env_stats (Suc (tick world0))"
    by (simp add: env_stats_def env0_def)
  have e: "localDate env_stats = ny_localDate" "setHours0 env_stats = ny_setHours0"
    by (simp_all add: env_stats_def env0_def)
  have h: "setHours0 env_stats 1699203600000 = 1699156800000"
    by (simp add: e ny_setHours0_def ny_instant_def ny_localDate_def ny_offset_def msPerDay_def)
  have c: "card (fb_userCode ` set recs3) = 2"
    by (simp add: recs3_def insert_commute)
  have m: "mono (localDate env_stats)"
    by (simp add: e ny_localDate_mono)
  have p: "localDate env_stats (setHours0 env_stats 1699203600000) = localDate env_stats 1699203600000"
    by (simp add: h) (simp add: e ny_localDate_def ny_offset_def msPerDay_def)
  have l: "\<forall>t. localDate env_stats t = localDate env_stats 1699203600000 \<longrightarrow>
      setHours0 env_stats 1699203600000 \<le> t"
    by (simp add: e ny_first_instant)
  have b: "\<forall>c\<in>set recs3. localDate env_stats (fb_timestamp c) \<le> localDate env_stats 1699203600000"
    by (simp add: e recs3_def ny_localDate_def ny_offset_def msPerDay_def)
  have v: "\<forall>c\<in>set recs3. valid_date (fb_timestamp c)"
    by (simp add: recs3_def valid_date_def)
  have d: "length (filter (\<lambda>c. spec_created_today env_stats 1699203600000 (fb_timestamp c)) recs3) = 1"
    by (simp add: e recs3_def spec_created_today_def ny_localDate_def ny_offset_def msPerDay_def)
  from C8_remote_stats [OF f refl n] m p l v b c d h show ?thesis
    by (simp add: recs3_def)
qed

end
